theory Spec2Isabelle
  imports Main
begin

section \<open>Time series statistics manager: a model of \<^verbatim>\<open>src/lib/index.ts\<close>\<close>

text \<open>
  The class \<^verbatim>\<open>TimeSeriesStatisticsManager\<close> keeps per-topic counters in one DynamoDB
  table, one counter cell per (topic, time partition, bucket start). The model follows
  the source function by function. JavaScript numbers are modelled as integers: the
  model is about integer timestamps, intervals and amounts, in the range where a
  JavaScript number is exact. A promise is modelled by its outcome, and the DynamoDB
  table is an explicit state that every command reads or updates. The calls of one
  manager are modelled one after the other; other clients of the table are not.
\<close>

subsection \<open>Data model\<close>

text \<open>\<^verbatim>\<open>interface Statistic\<close>. The field \<open>period\<close> is filled from the second element
  of a destructured array, which is \<^verbatim>\<open>undefined\<close> (here \<open>None\<close>) when the array has
  one element.\<close>

record Statistic =
  topic :: string
  period :: "string option"
  count :: int
  time_partition :: int

text \<open>\<^verbatim>\<open>interface TimePartition\<close>.\<close>

record TimePartition =
  name :: string
  format :: string
  interval :: int

text \<open>The module constant \<^verbatim>\<open>timePartitions\<close> (the default configuration). The class
  field of the same name keeps the name \<open>timePartitions\<close> below.\<close>

definition defaultTimePartitions :: "TimePartition list" where
  "defaultTimePartitions =
     [\<lparr>name = ''minute'', format = ''YYYY-MM-DDTHH:mm:00.000Z'', interval = 60\<rparr>,
      \<lparr>name = ''hour'', format = ''YYYY-MM-DDTHH:00:00.000Z'', interval = 60 * 60\<rparr>,
      \<lparr>name = ''day'', format = ''YYYY-MM-DDT00:00:00.000Z'', interval = 60 * 60 * 24\<rparr>,
      \<lparr>name = ''month'', format = ''YYYY-MM-01T00:00:00.000Z'', interval = 60 * 60 * 24 * 30\<rparr>,
      \<lparr>name = ''year'', format = ''YYYY-01-01T00:00:00.000Z'', interval = 60 * 60 * 24 * 365\<rparr>]"

text \<open>Values that the code throws or rejects with: the value \<^verbatim>\<open>undefined\<close> (a
  rejection without a reason), the runtime's \<^verbatim>\<open>TypeError\<close> (a property read on
  \<^verbatim>\<open>undefined\<close>) and \<^verbatim>\<open>RangeError\<close> (\<^verbatim>\<open>toISOString\<close> of an invalid date), the
  marshaller's refusal of \<^verbatim>\<open>NaN\<close>, and an error object thrown by \<^verbatim>\<open>client.send\<close>,
  identified by its name.\<close>

datatype js_error = Undefined | TypeError | RangeError | SpecialNumericValue | ClientError string

text \<open>JavaScript truthiness of such a value: only \<^verbatim>\<open>undefined\<close> is falsy, objects are
  truthy.\<close>

fun truthy :: "js_error \<Rightarrow> bool" where
  "truthy Undefined = False"
| "truthy _ = True"

text \<open>The outcome of a promise.\<close>

datatype 'a outcome = Fulfilled 'a | Rejected js_error | Pending

subsection \<open>The calendar of \<^verbatim>\<open>moment\<close> and \<^verbatim>\<open>Date\<close>\<close>

text \<open>
  The libraries \<^verbatim>\<open>moment\<close> and \<^verbatim>\<open>Date\<close> are not part of the repository. They are
  modelled for the fragment the shipped configuration uses: epoch milliseconds in UTC on
  the proleptic Gregorian calendar, format strings whose only letters are the tokens
  \<^verbatim>\<open>YYYY MM DD HH mm ss Z\<close> and the literal \<^verbatim>\<open>T\<close>, and date strings of the full ISO
  shape \<^verbatim>\<open>YYYY-MM-DDTHH:mm:ss.sss\<close> followed by \<^verbatim>\<open>Z\<close> or an offset \<^verbatim>\<open>+hh:mm\<close>.
  The general theorems below never look inside these functions.
\<close>

definition msPerDay :: int where
  "msPerDay = 86400000"

text \<open>The range of time values of a \<^verbatim>\<open>Date\<close>.\<close>

definition maxTime :: int where
  "maxTime = 8640000000000000"

text \<open>Year, month and day of the day number \<open>z\<close> (days since 1970-01-01), with floor
  division throughout. The computation is a chain of steps, each a function of the values
  found before it: the 400-year era and the day of the era, the year of the era, the day
  of the year (counted from 1 March), the month and the day of the month.\<close>

definition civil_month :: "int \<Rightarrow> int \<Rightarrow> int \<Rightarrow> int \<times> int \<times> int" where
  "civil_month y doy mp =
     (y + (if mp < 10 then 0 else 1), (if mp < 10 then mp + 3 else mp - 9),
      doy - (153 * mp + 2) div 5 + 1)"

definition civil_doy :: "int \<Rightarrow> int \<Rightarrow> int \<times> int \<times> int" where
  "civil_doy y doy = civil_month y doy ((5 * doy + 2) div 153)"

definition civil_yoe :: "int \<Rightarrow> int \<Rightarrow> int \<Rightarrow> int \<times> int \<times> int" where
  "civil_yoe era doe yoe =
     civil_doy (yoe + era * 400) (doe - (365 * yoe + yoe div 4 - yoe div 100))"

definition civil_doe :: "int \<Rightarrow> int \<Rightarrow> int \<times> int \<times> int" where
  "civil_doe era doe =
     civil_yoe era doe ((doe - doe div 1460 + doe div 36524 - doe div 146096) div 365)"

definition civil_from_days :: "int \<Rightarrow> int \<times> int \<times> int" where
  "civil_from_days z = civil_doe ((z + 719468) div 146097) ((z + 719468) mod 146097)"

definition days_from_civil :: "int \<Rightarrow> int \<Rightarrow> int \<Rightarrow> int" where
  "days_from_civil y0 m d =
     (let y = (if m \<le> 2 then y0 - 1 else y0);
          era = y div 400;
          yoe = y - era * 400;
          doy = (153 * (if m > 2 then m - 3 else m + 9) + 2) div 5 + d - 1;
          doe = yoe * 365 + yoe div 4 - yoe div 100 + doy
      in era * 146097 + doe - 719468)"

definition leap_year :: "int \<Rightarrow> bool" where
  "leap_year y = (y mod 4 = 0 \<and> (y mod 100 \<noteq> 0 \<or> y mod 400 = 0))"

definition days_in_month :: "int \<Rightarrow> int \<Rightarrow> int" where
  "days_in_month y m =
     (if m = 2 then (if leap_year y then 29 else 28)
      else if m = 4 \<or> m = 6 \<or> m = 9 \<or> m = 11 then 30 else 31)"

text \<open>The UTC fields of a time value.\<close>

record utc_fields =
  f_year :: int
  f_month :: int
  f_date :: int
  f_hours :: int
  f_minutes :: int
  f_seconds :: int
  f_milliseconds :: int

fun fields_of :: "int \<times> int \<times> int \<Rightarrow> int \<Rightarrow> utc_fields" where
  "fields_of (y, m, d) r =
     \<lparr>f_year = y, f_month = m, f_date = d,
      f_hours = r div 3600000,
      f_minutes = (r div 60000) mod 60,
      f_seconds = (r div 1000) mod 60,
      f_milliseconds = r mod 1000\<rparr>"

definition utc_of :: "int \<Rightarrow> utc_fields" where
  "utc_of t = fields_of (civil_from_days (t div msPerDay)) (t mod msPerDay)"

text \<open>Decimal digits.\<close>

definition digit_char :: "nat \<Rightarrow> char" where
  "digit_char n = ''0123456789'' ! (n mod 10)"

fun show_nat :: "nat \<Rightarrow> string" where
  "show_nat n = (if n < 10 then [digit_char n] else show_nat (n div 10) @ [digit_char n])"

declare show_nat.simps [simp del]

text \<open>\<^verbatim>\<open>zeroFill\<close> of \<^verbatim>\<open>moment\<close>: pads with zeros on the left and never truncates; a
  negative number keeps its sign in front.\<close>

definition zeroFill :: "int \<Rightarrow> nat \<Rightarrow> string" where
  "zeroFill n w =
     (let s = show_nat (nat \<bar>n\<bar>)
      in (if n < 0 then ''-'' else '''') @ replicate (w - length s) CHR ''0'' @ s)"

text \<open>\<^verbatim>\<open>moment(t).utc().format(fmt)\<close> on the fields of \<open>t\<close>: the tokens are replaced,
  every other character is copied.\<close>

function format_fields :: "string \<Rightarrow> utc_fields \<Rightarrow> string" where
  "format_fields fmt f =
     (if fmt = [] then []
      else if take 4 fmt = ''YYYY'' then zeroFill (f_year f) 4 @ format_fields (drop 4 fmt) f
      else if take 2 fmt = ''MM'' then zeroFill (f_month f) 2 @ format_fields (drop 2 fmt) f
      else if take 2 fmt = ''DD'' then zeroFill (f_date f) 2 @ format_fields (drop 2 fmt) f
      else if take 2 fmt = ''HH'' then zeroFill (f_hours f) 2 @ format_fields (drop 2 fmt) f
      else if take 2 fmt = ''mm'' then zeroFill (f_minutes f) 2 @ format_fields (drop 2 fmt) f
      else if take 2 fmt = ''ss'' then zeroFill (f_seconds f) 2 @ format_fields (drop 2 fmt) f
      else if take 1 fmt = ''Z'' then ''+00:00'' @ format_fields (drop 1 fmt) f
      else hd fmt # format_fields (tl fmt) f)"
  by pat_completeness auto
termination
  by (relation "measure (\<lambda>(fmt, f). length fmt)") auto

declare format_fields.simps [simp del]

text \<open>A time value outside the range of \<^verbatim>\<open>Date\<close> makes an invalid moment, which formats
  as \<^verbatim>\<open>Invalid date\<close>.\<close>

definition moment_utc_format :: "int \<Rightarrow> string \<Rightarrow> string" where
  "moment_utc_format t fmt =
     (if \<bar>t\<bar> \<le> maxTime then format_fields fmt (utc_of t) else ''Invalid date'')"

text \<open>Reading decimal digits.\<close>

definition digit_of :: "char \<Rightarrow> nat option" where
  "digit_of c = map_of (zip ''0123456789'' [0, 1, 2, 3, 4, 5, 6, 7, 8, 9]) c"

fun read_nat :: "nat \<Rightarrow> string \<Rightarrow> nat option" where
  "read_nat acc [] = Some acc"
| "read_nat acc (c # cs) =
     (case digit_of c of None \<Rightarrow> None | Some d \<Rightarrow> read_nat (10 * acc + d) cs)"

definition field_at :: "string \<Rightarrow> nat \<Rightarrow> nat \<Rightarrow> int option" where
  "field_at s i n = map_option int (read_nat 0 (take n (drop i s)))"

text \<open>The offset part of a date string, in minutes: \<^verbatim>\<open>Z\<close> or \<^verbatim>\<open>+hh:mm\<close> or
  \<^verbatim>\<open>-hh:mm\<close>.\<close>

definition read_offset :: "string \<Rightarrow> int option" where
  "read_offset z =
     (if z = ''Z'' then Some 0
      else if length z = 6 \<and> (z ! 0 = CHR ''+'' \<or> z ! 0 = CHR ''-'') \<and> z ! 3 = CHR '':'' then
        (case (field_at z 1 2, field_at z 4 2) of
           (Some h, Some m) \<Rightarrow>
             if h \<le> 23 \<and> m \<le> 59
             then Some ((if z ! 0 = CHR ''-'' then - 1 else 1) * (h * 60 + m))
             else None
         | _ \<Rightarrow> None)
      else None)"

text \<open>\<^verbatim>\<open>new Date(s).getTime()\<close>: the time value of a date string, \<open>None\<close> for an
  invalid date (whose \<^verbatim>\<open>getTime()\<close> is \<^verbatim>\<open>NaN\<close>).\<close>

definition Date_parse :: "string \<Rightarrow> int option" where
  "Date_parse s =
     (if 23 < length s \<and> s ! 4 = CHR ''-'' \<and> s ! 7 = CHR ''-'' \<and> s ! 10 = CHR ''T''
         \<and> s ! 13 = CHR '':'' \<and> s ! 16 = CHR '':'' \<and> s ! 19 = CHR ''.'' then
        (case (field_at s 0 4, field_at s 5 2, field_at s 8 2, field_at s 11 2,
               field_at s 14 2, field_at s 17 2, field_at s 20 3, read_offset (drop 23 s)) of
           (Some y, Some mo, Some d, Some h, Some mi, Some sec, Some ms, Some off) \<Rightarrow>
             if 1 \<le> mo \<and> mo \<le> 12 \<and> 1 \<le> d \<and> d \<le> days_in_month y mo
                \<and> h \<le> 23 \<and> mi \<le> 59 \<and> sec \<le> 59 then
               (let t = days_from_civil y mo d * msPerDay + h * 3600000 + (mi - off) * 60000
                        + sec * 1000 + ms
                in if \<bar>t\<bar> \<le> maxTime then Some t else None)
             else None
         | _ \<Rightarrow> None)
      else None)"

text \<open>\<^verbatim>\<open>Date.prototype.toISOString\<close> of a valid time value: four digits for the years
  0 to 9999, a sign and six digits for the others.\<close>

definition iso_year :: "int \<Rightarrow> string" where
  "iso_year y =
     (if 0 \<le> y \<and> y \<le> 9999 then zeroFill y 4
      else (if y < 0 then ''-'' else ''+'') @ zeroFill \<bar>y\<bar> 6)"

definition iso_of_fields :: "utc_fields \<Rightarrow> string" where
  "iso_of_fields f =
     iso_year (f_year f) @ ''-'' @ zeroFill (f_month f) 2 @ ''-'' @ zeroFill (f_date f) 2
     @ ''T'' @ zeroFill (f_hours f) 2 @ '':'' @ zeroFill (f_minutes f) 2 @ '':''
     @ zeroFill (f_seconds f) 2 @ ''.'' @ zeroFill (f_milliseconds f) 3 @ ''Z''"

definition toISOString :: "int \<Rightarrow> string" where
  "toISOString t = iso_of_fields (utc_of t)"

subsection \<open>The readiness gate\<close>

text \<open>The field \<^verbatim>\<open>state\<close> of the class.\<close>

datatype ready_state = INITIALIZING | INITIALIZED | FAIL

text \<open>
  The fields of the class. The client is the DynamoDB state \<open>dynamo\<close> below, passed to
  every operation. A callback queued in \<^verbatim>\<open>onReadyPromises\<close> is named by the number of
  the promise it settles; \<open>promises\<close> holds the outcome of every promise that
  \<^verbatim>\<open>onReady\<close> has returned, by number.
\<close>

record manager =
  table :: string
  state :: ready_state
  onReadyPromises :: "nat list"
  promises :: "unit outcome list"
  timePartitions :: "TimePartition list"

text \<open>\<^verbatim>\<open>TimeSeriesStatisticsManagerOptions\<close> without the client. An empty table name is
  falsy and gives the default; a list of partitions, also an empty one, is kept.\<close>

record options =
  opt_table :: "string option"
  opt_timePartitions :: "TimePartition list option"

definition constructor :: "options \<Rightarrow> manager" where
  "constructor opts =
     \<lparr>table = (case opt_table opts of
                 Some t \<Rightarrow> if t \<noteq> [] then t else ''statistics''
               | None \<Rightarrow> ''statistics''),
      state = INITIALIZING,
      onReadyPromises = [],
      promises = [],
      timePartitions = (case opt_timePartitions opts of
                          Some tps \<Rightarrow> tps
                        | None \<Rightarrow> defaultTimePartitions)\<rparr>"

text \<open>The callback that \<^verbatim>\<open>onReady\<close> queues while the state is \<^verbatim>\<open>INITIALIZING\<close>: called
  with a truthy value it rejects its promise with that value, otherwise it resolves it.\<close>

definition callback :: "js_error \<Rightarrow> unit outcome list \<Rightarrow> nat \<Rightarrow> unit outcome list" where
  "callback error ps p = ps[p := (if truthy error then Rejected error else Fulfilled ())]"

definition onReady :: "manager \<Rightarrow> nat \<times> manager" where
  "onReady m =
     (let p = length (promises m) in
      case state m of
        INITIALIZED \<Rightarrow> (p, m\<lparr>promises := promises m @ [Fulfilled ()]\<rparr>)
      | FAIL \<Rightarrow> (p, m\<lparr>promises := promises m @ [Rejected Undefined]\<rparr>)
      | INITIALIZING \<Rightarrow>
          (p, m\<lparr>promises := promises m @ [Pending],
                onReadyPromises := onReadyPromises m @ [p]\<rparr>))"

definition resolveReadyPromises :: "manager \<Rightarrow> manager" where
  "resolveReadyPromises m =
     m\<lparr>promises := foldl (callback Undefined) (promises m) (onReadyPromises m),
       onReadyPromises := []\<rparr>"

definition rejectReadyPromises :: "js_error \<Rightarrow> manager \<Rightarrow> manager" where
  "rejectReadyPromises error m =
     m\<lparr>promises := foldl (callback error) (promises m) (onReadyPromises m),
       onReadyPromises := []\<rparr>"

text \<open>The end of the constructor's promise chain. How \<^verbatim>\<open>createTableIfNotExists\<close> ends
  is an input: \<open>None\<close> when it returns, \<open>Some error\<close> when it throws \<open>error\<close>.\<close>

definition provisioned :: "js_error option \<Rightarrow> manager \<Rightarrow> manager" where
  "provisioned r m =
     (case r of
        None \<Rightarrow> resolveReadyPromises (m\<lparr>state := INITIALIZED\<rparr>)
      | Some error \<Rightarrow> rejectReadyPromises error (m\<lparr>state := FAIL\<rparr>))"

text \<open>\<^verbatim>\<open>await this.onReady()\<close> as the operations use it: the outcome of the promise that
  \<^verbatim>\<open>onReady\<close> returns now. An operation that meets \<open>Pending\<close> is suspended; the model
  reports it as pending and does not follow it further.\<close>

definition await_onReady :: "manager \<Rightarrow> unit outcome" where
  "await_onReady m = (case onReady m of (p, m') \<Rightarrow> promises m' ! p)"

subsection \<open>The DynamoDB table and the client\<close>

text \<open>A counter cell: the attributes \<^verbatim>\<open>count\<close> and \<^verbatim>\<open>time\<close> of an item. The table
  maps the key (\<^verbatim>\<open>topic_period\<close>, \<^verbatim>\<open>time_partition\<close>) to the cell.\<close>

record cell =
  cell_count :: int
  cell_time :: string

text \<open>An item as a query returns it.\<close>

record item =
  topic_period :: string
  item_time_partition :: int
  item_count :: int
  item_time :: string

text \<open>The parameters of the two commands: the table, the key and the expression
  attribute values.\<close>

record UpdateParams =
  upd_TableName :: string
  Key_topic_period :: string
  Key_time_partition :: int
  val_incr :: int
  val_time :: string

record QueryParams =
  qry_TableName :: string
  val_topic_period :: string
  val_startTime :: int
  val_endTime :: int

datatype command = UpdateCommand UpdateParams | QueryCommand QueryParams

text \<open>
  The service as the client sees it: the cells of the table, the commands sent so far
  in order, and a fault plan. The command number \<open>n\<close> (counted from 0) fails with the
  error \<open>e\<close> when \<open>fault n = Some e\<close>; this covers every error of \<^verbatim>\<open>client.send\<close>
  (network, throttling, validation). A command that fails changes no cell.
\<close>

record dynamo =
  cells :: "string \<times> int \<Rightarrow> cell option"
  sent :: "command list"
  fault :: "nat \<Rightarrow> js_error option"

text \<open>The update expression \<^verbatim>\<open>ADD #count :incr SET #timestamp = :time\<close> on one cell: an
  upsert, where a cell that does not exist counts from 0.\<close>

definition apply_update :: "(string \<times> int \<Rightarrow> cell option) \<Rightarrow> UpdateParams \<Rightarrow> string \<times> int \<Rightarrow> cell option" where
  "apply_update cs u =
     (let k = (Key_topic_period u, Key_time_partition u)
      in cs(k \<mapsto> \<lparr>cell_count = (case cs k of None \<Rightarrow> 0 | Some c \<Rightarrow> cell_count c) + val_incr u,
                   cell_time = val_time u\<rparr>))"

text \<open>The key condition \<^verbatim>\<open>topic_period = :topic_period AND time_partition BETWEEN
  :startTime AND :endTime\<close>: the items of one hash key whose range key lies in the closed
  interval, in ascending order of the range key. The whole result is taken to come in
  one response: the code reads \<^verbatim>\<open>response.Items\<close> once and asks for no further page.\<close>

definition query_items :: "(string \<times> int \<Rightarrow> cell option) \<Rightarrow> string \<Rightarrow> int \<Rightarrow> int \<Rightarrow> item list" where
  "query_items cs hk lo hi =
     List.map_filter
       (\<lambda>tp. map_option
          (\<lambda>c. \<lparr>topic_period = hk, item_time_partition = tp,
                 item_count = cell_count c, item_time = cell_time c\<rparr>)
          (cs (hk, tp)))
       [lo..hi]"

definition send_update :: "UpdateParams \<Rightarrow> dynamo \<Rightarrow> (js_error + unit) \<times> dynamo" where
  "send_update u w =
     (case fault w (length (sent w)) of
        Some e \<Rightarrow> (Inl e, w\<lparr>sent := sent w @ [UpdateCommand u]\<rparr>)
      | None \<Rightarrow> (Inr (), w\<lparr>cells := apply_update (cells w) u,
                            sent := sent w @ [UpdateCommand u]\<rparr>))"

definition send_query :: "QueryParams \<Rightarrow> dynamo \<Rightarrow> (js_error + item list) \<times> dynamo" where
  "send_query q w =
     (case fault w (length (sent w)) of
        Some e \<Rightarrow> (Inl e, w\<lparr>sent := sent w @ [QueryCommand q]\<rparr>)
      | None \<Rightarrow> (Inr (query_items (cells w) (val_topic_period q) (val_startTime q) (val_endTime q)),
                 w\<lparr>sent := sent w @ [QueryCommand q]\<rparr>))"

subsection \<open>Keys and buckets\<close>

definition createTopicPeriod :: "string \<Rightarrow> string \<Rightarrow> string" where
  "createTopicPeriod tpc per = tpc @ ''#'' @ per"

definition getTimePartition :: "manager \<Rightarrow> string \<Rightarrow> TimePartition option" where
  "getTimePartition m per = find (\<lambda>tp. name tp = per) (timePartitions m)"

text \<open>\<^verbatim>\<open>moment(timestamp)\<close> reads a number as epoch milliseconds.\<close>

definition getTimePartitionValue :: "int \<Rightarrow> TimePartition \<Rightarrow> string" where
  "getTimePartitionValue timestamp part = moment_utc_format timestamp (format part)"

subsection \<open>addStatistic\<close>

text \<open>\<^verbatim>\<open>amount ? amount : 1\<close>: an amount that is left out (\<open>None\<close>) or falsy (zero) gives
  1.\<close>

definition incr_of :: "int option \<Rightarrow> int" where
  "incr_of amount = (case amount of None \<Rightarrow> 1 | Some a \<Rightarrow> if a \<noteq> 0 then a else 1)"

text \<open>The object \<^verbatim>\<open>updateParams\<close> of one partition. Building it throws a
  \<^verbatim>\<open>RangeError\<close> when the formatted bucket is not a valid date, since \<^verbatim>\<open>toISOString\<close>
  refuses an invalid date.\<close>

definition updateParams :: "manager \<Rightarrow> string \<Rightarrow> int \<Rightarrow> int option \<Rightarrow> TimePartition \<Rightarrow> js_error + UpdateParams" where
  "updateParams m tpc timestamp amount part =
     (case Date_parse (getTimePartitionValue timestamp part) of
        None \<Rightarrow> Inl RangeError
      | Some timePartition \<Rightarrow>
          Inr \<lparr>upd_TableName = table m,
               Key_topic_period = createTopicPeriod tpc (name part),
               Key_time_partition = timePartition,
               val_incr = incr_of amount,
               val_time = toISOString timePartition\<rparr>)"

text \<open>The loop over \<^verbatim>\<open>this.timePartitions\<close>: each update is awaited before the next
  partition is looked at, and an error ends the loop.\<close>

fun addStatistic_loop :: "manager \<Rightarrow> string \<Rightarrow> int \<Rightarrow> int option \<Rightarrow> TimePartition list \<Rightarrow> dynamo \<Rightarrow> unit outcome \<times> dynamo" where
  "addStatistic_loop m tpc timestamp amount [] w = (Fulfilled (), w)"
| "addStatistic_loop m tpc timestamp amount (part # rest) w =
     (case updateParams m tpc timestamp amount part of
        Inl e \<Rightarrow> (Rejected e, w)
      | Inr u \<Rightarrow>
          (case send_update u w of
             (Inl e, w') \<Rightarrow> (Rejected e, w')
           | (Inr _, w') \<Rightarrow> addStatistic_loop m tpc timestamp amount rest w'))"

definition addStatistic :: "manager \<Rightarrow> dynamo \<Rightarrow> string \<Rightarrow> int \<Rightarrow> int option \<Rightarrow> unit outcome \<times> dynamo" where
  "addStatistic m w tpc timestamp amount =
     (case await_onReady m of
        Pending \<Rightarrow> (Pending, w)
      | Rejected e \<Rightarrow> (Rejected e, w)
      | Fulfilled _ \<Rightarrow> addStatistic_loop m tpc timestamp amount (timePartitions m) w)"

subsection \<open>getStatisticsPeriod and getStatistics\<close>

text \<open>\<^verbatim>\<open>s.split("#")\<close>: the first part and the list of the parts after it.\<close>

fun split_on :: "char \<Rightarrow> string \<Rightarrow> string \<times> string list" where
  "split_on c [] = ([], [])"
| "split_on c (x # xs) =
     (case split_on c xs of (p, ps) \<Rightarrow> if x = c then ([], p # ps) else (x # p, ps))"

text \<open>The function mapped over \<^verbatim>\<open>response.Items\<close>: \<^verbatim>\<open>[topic, period]\<close> are the first
  two parts of the hash key.\<close>

definition statistic_of :: "item \<Rightarrow> Statistic" where
  "statistic_of it =
     (case split_on CHR ''#'' (topic_period it) of
        (p, ps) \<Rightarrow>
          \<lparr>topic = p,
           period = (case ps of [] \<Rightarrow> None | q # _ \<Rightarrow> Some q),
           count = item_count it,
           time_partition = item_time_partition it\<rparr>)"

text \<open>
  A period that is not configured makes \<^verbatim>\<open>partition\<close> undefined, and reading
  \<^verbatim>\<open>partition.interval\<close> throws a \<^verbatim>\<open>TypeError\<close>. \<^verbatim>\<open>Math.floor(x / i) * i\<close> is
  \<open>(x div i) * i\<close> on integers when \<open>i\<close> is not zero; for \<open>i = 0\<close> it is \<^verbatim>\<open>NaN\<close>, which
  the client refuses to marshal before anything is sent.
\<close>

definition getStatisticsPeriod :: "manager \<Rightarrow> dynamo \<Rightarrow> string \<Rightarrow> string \<Rightarrow> int \<Rightarrow> int \<Rightarrow> Statistic list outcome \<times> dynamo" where
  "getStatisticsPeriod m w tpc per startTime endTime =
     (case await_onReady m of
        Pending \<Rightarrow> (Pending, w)
      | Rejected e \<Rightarrow> (Rejected e, w)
      | Fulfilled _ \<Rightarrow>
          (case getTimePartition m per of
             None \<Rightarrow> (Rejected TypeError, w)
           | Some part \<Rightarrow>
               if interval part = 0 then (Rejected SpecialNumericValue, w)
               else
                 (case send_query
                         \<lparr>qry_TableName = table m,
                          val_topic_period = createTopicPeriod tpc per,
                          val_startTime = (startTime div interval part) * interval part,
                          val_endTime = (endTime div interval part) * interval part\<rparr> w of
                    (Inl e, w') \<Rightarrow> (Rejected e, w')
                  | (Inr items, w') \<Rightarrow> (Fulfilled (map statistic_of items), w'))))"

text \<open>\<^verbatim>\<open>this.timePartitions.map(async ...)\<close>: every sub-query is started, in list order,
  whatever the others do.\<close>

fun getStatistics_map :: "manager \<Rightarrow> string \<Rightarrow> int \<Rightarrow> int \<Rightarrow> TimePartition list \<Rightarrow> dynamo \<Rightarrow> Statistic list outcome list \<times> dynamo" where
  "getStatistics_map m tpc startTime endTime [] w = ([], w)"
| "getStatistics_map m tpc startTime endTime (part # rest) w =
     (case getStatisticsPeriod m w tpc (name part) startTime endTime of
        (r, w') \<Rightarrow>
          (case getStatistics_map m tpc startTime endTime rest w' of
             (rs, w'') \<Rightarrow> (r # rs, w'')))"

text \<open>\<^verbatim>\<open>Promise.all\<close>: the values in the order of the promises when all are fulfilled. When
  several are rejected the model takes the first in list order.\<close>

fun Promise_all :: "'a outcome list \<Rightarrow> 'a list outcome" where
  "Promise_all [] = Fulfilled []"
| "Promise_all (Rejected e # rs) = Rejected e"
| "Promise_all (Pending # rs) =
     (case Promise_all rs of Rejected e \<Rightarrow> Rejected e | _ \<Rightarrow> Pending)"
| "Promise_all (Fulfilled x # rs) =
     (case Promise_all rs of
        Fulfilled xs \<Rightarrow> Fulfilled (x # xs)
      | Rejected e \<Rightarrow> Rejected e
      | Pending \<Rightarrow> Pending)"

definition getStatistics :: "manager \<Rightarrow> dynamo \<Rightarrow> string \<Rightarrow> int \<Rightarrow> int \<Rightarrow> Statistic list outcome \<times> dynamo" where
  "getStatistics m w tpc startTime endTime =
     (case await_onReady m of
        Pending \<Rightarrow> (Pending, w)
      | Rejected e \<Rightarrow> (Rejected e, w)
      | Fulfilled _ \<Rightarrow>
          (case getStatistics_map m tpc startTime endTime (timePartitions m) w of
             (rs, w') \<Rightarrow>
               (case Promise_all rs of
                  Fulfilled results \<Rightarrow> (Fulfilled (concat results), w')
                | Rejected e \<Rightarrow> (Rejected e, w')
                | Pending \<Rightarrow> (Pending, w'))))"

subsection \<open>Configurations used as examples\<close>

text \<open>A manager built without options whose table provisioning has succeeded, the
  manager of \<^verbatim>\<open>index.test.ts\<close> (two partitions, table \<^verbatim>\<open>test-table\<close>), an empty table
  behind a client that never fails, and an empty table behind a client whose third
  command fails.\<close>

definition ready_default :: manager where
  "ready_default = provisioned None (constructor \<lparr>opt_table = None, opt_timePartitions = None\<rparr>)"

definition testTimePartitions :: "TimePartition list" where
  "testTimePartitions =
     [\<lparr>name = ''minute'', format = ''YYYY-MM-DDTHH:mm:00.000Z'', interval = 60\<rparr>,
      \<lparr>name = ''hour'', format = ''YYYY-MM-DDTHH:00:00.000Z'', interval = 60 * 60\<rparr>]"

definition test_manager :: manager where
  "test_manager =
     provisioned None
       (constructor \<lparr>opt_table = Some ''test-table'', opt_timePartitions = Some testTimePartitions\<rparr>)"

definition empty_dynamo :: dynamo where
  "empty_dynamo = \<lparr>cells = (\<lambda>k. None), sent = [], fault = (\<lambda>n. None)\<rparr>"

definition throttled_dynamo :: dynamo where
  "throttled_dynamo =
     \<lparr>cells = (\<lambda>k. None), sent = [],
      fault = (\<lambda>n. if n = 2 then Some (ClientError ''ThrottlingException'') else None)\<rparr>"

text \<open>A table that holds one cell of the month partition, for the bucket that starts at
  time 0.\<close>

definition january_dynamo :: dynamo where
  "january_dynamo =
     \<lparr>cells = [(''t#month'', 0) \<mapsto> \<lparr>cell_count = 3, cell_time = ''1970-01-01T00:00:00.000Z''\<rparr>],
      sent = [], fault = (\<lambda>n. None)\<rparr>"

text \<open>The updates that \<^verbatim>\<open>addStatistic("t", 1700000000)\<close> builds on the default manager,
  one per partition.\<close>

definition example_updates :: "UpdateParams list" where
  "example_updates =
     [\<lparr>upd_TableName = ''statistics'', Key_topic_period = ''t#minute'',
       Key_time_partition = 1699980000, val_incr = 1, val_time = ''1970-01-20T16:13:00.000Z''\<rparr>,
      \<lparr>upd_TableName = ''statistics'', Key_topic_period = ''t#hour'',
       Key_time_partition = 1699200000, val_incr = 1, val_time = ''1970-01-20T16:00:00.000Z''\<rparr>,
      \<lparr>upd_TableName = ''statistics'', Key_topic_period = ''t#day'',
       Key_time_partition = 1641600000, val_incr = 1, val_time = ''1970-01-20T00:00:00.000Z''\<rparr>,
      \<lparr>upd_TableName = ''statistics'', Key_topic_period = ''t#month'',
       Key_time_partition = 0, val_incr = 1, val_time = ''1970-01-01T00:00:00.000Z''\<rparr>,
      \<lparr>upd_TableName = ''statistics'', Key_topic_period = ''t#year'',
       Key_time_partition = 0, val_incr = 1, val_time = ''1970-01-01T00:00:00.000Z''\<rparr>]"

text \<open>A table that holds one cell of the minute partition and one of the hour partition
  for the topic \<^verbatim>\<open>t\<close>, both for the bucket that starts at time 0.\<close>

definition two_cell_dynamo :: dynamo where
  "two_cell_dynamo =
     \<lparr>cells = [(''t#minute'', 0) \<mapsto> \<lparr>cell_count = 2, cell_time = ''1970-01-01T00:00:00.000Z''\<rparr>,
               (''t#hour'', 0) \<mapsto> \<lparr>cell_count = 5, cell_time = ''1970-01-01T00:00:00.000Z''\<rparr>],
      sent = [], fault = (\<lambda>n. None)\<rparr>"

subsection \<open>Sequences of read calls\<close>

text \<open>A call of one of the two read operations, and the state of the service after a
  sequence of such calls on one manager.\<close>

datatype read_call = GetStatisticsPeriod string string int int | GetStatistics string int int

fun read_call_on :: "manager \<Rightarrow> dynamo \<Rightarrow> read_call \<Rightarrow> dynamo" where
  "read_call_on m w (GetStatisticsPeriod tpc per startTime endTime) =
     snd (getStatisticsPeriod m w tpc per startTime endTime)"
| "read_call_on m w (GetStatistics tpc startTime endTime) =
     snd (getStatistics m w tpc startTime endTime)"

definition run_reads :: "manager \<Rightarrow> read_call list \<Rightarrow> dynamo \<Rightarrow> dynamo" where
  "run_reads m calls w = foldl (read_call_on m) w calls"

text \<open>The updates that \<^verbatim>\<open>addStatistic(topic, 1700000000, amount)\<close> builds on the manager
  of the test file.\<close>

definition test_updates :: "string \<Rightarrow> int option \<Rightarrow> UpdateParams list" where
  "test_updates tpc amount =
     [\<lparr>upd_TableName = ''test-table'', Key_topic_period = tpc @ ''#minute'',
       Key_time_partition = 1699980000, val_incr = incr_of amount,
       val_time = ''1970-01-20T16:13:00.000Z''\<rparr>,
      \<lparr>upd_TableName = ''test-table'', Key_topic_period = tpc @ ''#hour'',
       Key_time_partition = 1699200000, val_incr = incr_of amount,
       val_time = ''1970-01-20T16:00:00.000Z''\<rparr>]"

section \<open>Properties\<close>

subsection \<open>Evaluation of the examples\<close>

lemma replicate_numeral: "replicate (numeral k) x = x # replicate (pred_numeral k) x"
  by (simp add: numeral_eq_Suc)

lemmas calendar_eval =
  civil_from_days_def civil_doe_def civil_yoe_def civil_doy_def civil_month_def utc_of_def
  msPerDay_def maxTime_def

lemmas format_eval =
  moment_utc_format_def format_fields.simps show_nat.simps zeroFill_def digit_char_def
  replicate_numeral toISOString_def iso_of_fields_def iso_year_def

lemmas parse_eval =
  Date_parse_def field_at_def read_offset_def digit_of_def days_from_civil_def
  days_in_month_def leap_year_def

lemmas params_eval =
  updateParams_def getTimePartitionValue_def createTopicPeriod_def incr_of_def
  calendar_eval format_eval parse_eval

lemma ready_default_eq:
  "ready_default =
     \<lparr>table = ''statistics'', state = INITIALIZED, onReadyPromises = [], promises = [],
      timePartitions = defaultTimePartitions\<rparr>"
  by (simp add: ready_default_def provisioned_def constructor_def resolveReadyPromises_def)

lemma test_manager_eq:
  "test_manager =
     \<lparr>table = ''test-table'', state = INITIALIZED, onReadyPromises = [], promises = [],
      timePartitions = testTimePartitions\<rparr>"
  by (simp add: test_manager_def provisioned_def constructor_def resolveReadyPromises_def)

subsection \<open>The gate as the operations see it\<close>

lemma await_onReady_state:
  "await_onReady m =
     (case state m of
        INITIALIZED \<Rightarrow> Fulfilled ()
      | FAIL \<Rightarrow> Rejected Undefined
      | INITIALIZING \<Rightarrow> Pending)"
  by (simp add: await_onReady_def onReady_def Let_def split: ready_state.split)

lemma await_onReady_ready: "state m = INITIALIZED \<Longrightarrow> await_onReady m = Fulfilled ()"
  by (simp add: await_onReady_state)

subsection \<open>A period that is not configured\<close>

lemma getTimePartition_None:
  "per \<notin> set (map name (timePartitions m)) \<Longrightarrow> getTimePartition m per = None"
  by (auto simp: getTimePartition_def find_None_iff)

text \<open>
  Claim C2. A call of \<^verbatim>\<open>getStatisticsPeriod\<close> with a period that is the name of no
  configured partition never fulfils, so it never returns an empty result; once the
  manager is ready it is rejected with the error of the failed lookup (the
  \<^verbatim>\<open>TypeError\<close> raised on reading \<^verbatim>\<open>interval\<close> of the missing partition), and no
  command is sent to the table.
\<close>

theorem getStatisticsPeriod_unknown_period:
  assumes "per \<notin> set (map name (timePartitions m))"
  shows "(\<forall>r. fst (getStatisticsPeriod m w tpc per startTime endTime) \<noteq> Fulfilled r)
         \<and> (state m = INITIALIZED \<longrightarrow>
              getStatisticsPeriod m w tpc per startTime endTime = (Rejected TypeError, w))"
  using getTimePartition_None [OF assms]
  by (simp add: getStatisticsPeriod_def await_onReady_state split: ready_state.split)

theorem getStatisticsPeriod_unknown_period_witness:
  "''week'' \<notin> set (map name (timePartitions ready_default))
   \<and> getStatisticsPeriod ready_default empty_dynamo ''t'' ''week'' 0 100
       = (Rejected TypeError, empty_dynamo)"
proof -
  have h: "''week'' \<notin> set (map name (timePartitions ready_default))"
    by (simp add: ready_default_eq defaultTimePartitions_def)
  have s: "state ready_default = INITIALIZED"
    by (simp add: ready_default_eq)
  from getStatisticsPeriod_unknown_period [OF h, of empty_dynamo "''t''" 0 100] s h
  show ?thesis by simp
qed

subsection \<open>What a query returns\<close>

lemma map_filter_partitions:
  "map item_time_partition
     (List.map_filter
        (\<lambda>tp. map_option
           (\<lambda>c. \<lparr>topic_period = hk, item_time_partition = tp,
                  item_count = cell_count c, item_time = cell_time c\<rparr>)
           (cs (hk, tp))) xs)
   = filter (\<lambda>tp. cs (hk, tp) \<noteq> None) xs"
  by (induction xs) (auto split: option.split)

lemma query_items_partitions:
  "map item_time_partition (query_items cs hk lo hi) = filter (\<lambda>tp. cs (hk, tp) \<noteq> None) [lo..hi]"
  unfolding query_items_def by (rule map_filter_partitions)

lemma query_items_cell:
  "it \<in> set (query_items cs hk lo hi) \<Longrightarrow>
     \<exists>c. cs (hk, item_time_partition it) = Some c \<and> item_count it = cell_count c
         \<and> item_time it = cell_time c \<and> topic_period it = hk"
  by (auto simp: query_items_def List.map_filter_def)

lemma statistic_of_fields:
  "time_partition (statistic_of it) = item_time_partition it"
  "count (statistic_of it) = item_count it"
  by (simp_all add: statistic_of_def split: prod.split)

lemma send_query_ok:
  "fault w (length (sent w)) = None \<Longrightarrow>
     send_query q w =
       (Inr (query_items (cells w) (val_topic_period q) (val_startTime q) (val_endTime q)),
        w\<lparr>sent := sent w @ [QueryCommand q]\<rparr>)"
  by (simp add: send_query_def)

lemma getStatisticsPeriod_ok:
  assumes "state m = INITIALIZED" and "getTimePartition m per = Some part"
    and "interval part \<noteq> 0" and "fault w (length (sent w)) = None"
  shows "getStatisticsPeriod m w tpc per startTime endTime =
           (Fulfilled (map statistic_of
              (query_items (cells w) (createTopicPeriod tpc per)
                 ((startTime div interval part) * interval part)
                 ((endTime div interval part) * interval part))),
            w\<lparr>sent := sent w @
               [QueryCommand
                  \<lparr>qry_TableName = table m,
                   val_topic_period = createTopicPeriod tpc per,
                   val_startTime = (startTime div interval part) * interval part,
                   val_endTime = (endTime div interval part) * interval part\<rparr>]\<rparr>)"
  using assms by (simp add: getStatisticsPeriod_def await_onReady_ready send_query_ok)

text \<open>For a positive interval, \<open>(x div i) * i\<close> is the largest multiple of \<open>i\<close> that is
  at most \<open>x\<close>.\<close>

lemma align_down:
  fixes x i :: int
  assumes "0 < i"
  shows "(x div i) * i \<le> x" and "x < (x div i) * i + i" and "i dvd (x div i) * i"
proof -
  have "x = (x div i) * i + x mod i" by simp
  moreover have "0 \<le> x mod i" "x mod i < i" using assms by simp_all
  ultimately show "(x div i) * i \<le> x" and "x < (x div i) * i + i" by linarith+
  show "i dvd (x div i) * i" by simp
qed

text \<open>
  Claim C6. On a ready manager, \<^verbatim>\<open>getStatisticsPeriod\<close> for a configured period sends
  one query whose bounds are the start and the end time, each divided by the interval
  of the partition with floor division and multiplied back. When the query does not
  fail, the bucket timestamps of the Statistics returned are exactly the range keys
  between the two bounds, both included, under which the table holds a cell for the
  hash key of the topic and the period, in ascending order, each with the count of
  its cell. The intervals are the constants of the configuration: 30 times 86400 for
  the month and 365 times 86400 for the year in the default one.
\<close>

theorem getStatisticsPeriod_range:
  assumes "state m = INITIALIZED" and "getTimePartition m per = Some part"
    and "interval part \<noteq> 0" and "fault w (length (sent w)) = None"
  shows "\<exists>rs. getStatisticsPeriod m w tpc per startTime endTime =
           (Fulfilled rs,
            w\<lparr>sent := sent w @
               [QueryCommand
                  \<lparr>qry_TableName = table m,
                   val_topic_period = createTopicPeriod tpc per,
                   val_startTime = (startTime div interval part) * interval part,
                   val_endTime = (endTime div interval part) * interval part\<rparr>]\<rparr>)
         \<and> map time_partition rs =
             filter (\<lambda>tp. cells w (createTopicPeriod tpc per, tp) \<noteq> None)
               [(startTime div interval part) * interval part ..
                (endTime div interval part) * interval part]
         \<and> (\<forall>st \<in> set rs. \<exists>c. cells w (createTopicPeriod tpc per, time_partition st) = Some c
                \<and> count st = cell_count c)
         \<and> map (\<lambda>p. (name p, interval p)) defaultTimePartitions =
             [(''minute'', 60), (''hour'', 3600), (''day'', 86400),
              (''month'', 30 * 86400), (''year'', 365 * 86400)]"
proof -
  let ?lo = "(startTime div interval part) * interval part"
  let ?hi = "(endTime div interval part) * interval part"
  let ?items = "query_items (cells w) (createTopicPeriod tpc per) ?lo ?hi"
  have run: "getStatisticsPeriod m w tpc per startTime endTime =
           (Fulfilled (map statistic_of ?items),
            w\<lparr>sent := sent w @
               [QueryCommand
                  \<lparr>qry_TableName = table m,
                   val_topic_period = createTopicPeriod tpc per,
                   val_startTime = ?lo, val_endTime = ?hi\<rparr>]\<rparr>)"
    by (rule getStatisticsPeriod_ok [OF assms])
  have keys: "map time_partition (map statistic_of ?items) =
      filter (\<lambda>tp. cells w (createTopicPeriod tpc per, tp) \<noteq> None) [?lo..?hi]"
  proof -
    have "map time_partition (map statistic_of ?items) = map item_time_partition ?items"
      by (simp add: statistic_of_fields)
    also have "\<dots> = filter (\<lambda>tp. cells w (createTopicPeriod tpc per, tp) \<noteq> None) [?lo..?hi]"
      by (rule query_items_partitions)
    finally show ?thesis .
  qed
  have counts: "\<forall>st \<in> set (map statistic_of ?items).
      \<exists>c. cells w (createTopicPeriod tpc per, time_partition st) = Some c \<and> count st = cell_count c"
    using query_items_cell [of _ "cells w" "createTopicPeriod tpc per" ?lo ?hi]
    by (auto simp: statistic_of_fields)
  have dflt: "map (\<lambda>p. (name p, interval p)) defaultTimePartitions =
             [(''minute'', 60), (''hour'', 3600), (''day'', 86400),
              (''month'', 30 * 86400), (''year'', 365 * 86400)]"
    by (simp add: defaultTimePartitions_def)
  from run keys counts dflt show ?thesis
    by (intro exI [where x = "map statistic_of ?items"] conjI)
qed

theorem getStatisticsPeriod_range_witness:
  "state ready_default = INITIALIZED
   \<and> getTimePartition ready_default ''month''
       = Some \<lparr>name = ''month'', format = ''YYYY-MM-01T00:00:00.000Z'', interval = 2592000\<rparr>
   \<and> fault january_dynamo (length (sent january_dynamo)) = None
   \<and> (\<exists>rs. getStatisticsPeriod ready_default january_dynamo ''t'' ''month'' 100 2591999 =
           (Fulfilled rs,
            january_dynamo\<lparr>sent :=
               [QueryCommand
                  \<lparr>qry_TableName = ''statistics'', val_topic_period = ''t#month'',
                   val_startTime = 0, val_endTime = 0\<rparr>]\<rparr>)
         \<and> map time_partition rs = [0]
         \<and> map count rs = [3])"
proof -
  have a: "state ready_default = INITIALIZED"
    by (simp add: ready_default_eq)
  have b: "getTimePartition ready_default ''month''
       = Some \<lparr>name = ''month'', format = ''YYYY-MM-01T00:00:00.000Z'', interval = 2592000\<rparr>"
    by (simp add: ready_default_eq getTimePartition_def defaultTimePartitions_def)
  have c: "interval \<lparr>name = ''month'', format = ''YYYY-MM-01T00:00:00.000Z'', interval = 2592000\<rparr> \<noteq> 0"
    by simp
  have d: "fault january_dynamo (length (sent january_dynamo)) = None"
    by (simp add: january_dynamo_def)
  from getStatisticsPeriod_range [OF a b c d, of "''t''" 100 2591999]
  obtain rs where rs:
    "getStatisticsPeriod ready_default january_dynamo ''t'' ''month'' 100 2591999 =
           (Fulfilled rs,
            january_dynamo\<lparr>sent :=
               [QueryCommand
                  \<lparr>qry_TableName = ''statistics'', val_topic_period = ''t#month'',
                   val_startTime = 0, val_endTime = 0\<rparr>]\<rparr>)"
    "map time_partition rs = [0]"
    "\<forall>st \<in> set rs. \<exists>c. cells january_dynamo (''t#month'', time_partition st) = Some c
                \<and> count st = cell_count c"
    by (auto simp: ready_default_eq january_dynamo_def createTopicPeriod_def)
  from rs(2) obtain st where st: "rs = [st]" "time_partition st = 0" by auto
  with rs(3) have "count st = 3" by (auto simp: january_dynamo_def)
  with st have cnt: "map count rs = [3]" by simp
  from a b d rs(1,2) cnt show ?thesis
    by (intro conjI exI [where x = rs])
qed

subsection \<open>The writes of addStatistic\<close>

lemma example_updates_eval:
  "map (updateParams ready_default ''t'' 1700000000 None) defaultTimePartitions
     = map Inr example_updates"
  by (simp add: ready_default_eq defaultTimePartitions_def example_updates_def params_eval)

lemma updateParams_Inr:
  "updateParams m tpc timestamp amount p = Inr u \<Longrightarrow>
     upd_TableName u = table m \<and> Key_topic_period u = createTopicPeriod tpc (name p)
     \<and> val_incr u = incr_of amount"
  by (auto simp: updateParams_def split: option.splits)

lemma updates_keys:
  "map (updateParams m tpc timestamp amount) ps = map Inr us \<Longrightarrow>
     map Key_topic_period us = map (\<lambda>p. createTopicPeriod tpc (name p)) ps"
proof (induction ps arbitrary: us)
  case Nil
  then show ?case by simp
next
  case (Cons p ps)
  then obtain u us' where "us = u # us'" "updateParams m tpc timestamp amount p = Inr u"
    "map (updateParams m tpc timestamp amount) ps = map Inr us'"
    by (cases us) auto
  with Cons.IH [of us'] show ?case by (simp add: updateParams_Inr)
qed

lemma addStatistic_loop_ok:
  "map (updateParams m tpc timestamp amount) ps = map Inr us \<Longrightarrow>
   \<forall>i<length us. fault w (length (sent w) + i) = None \<Longrightarrow>
   addStatistic_loop m tpc timestamp amount ps w =
     (Fulfilled (),
      w\<lparr>cells := foldl apply_update (cells w) us, sent := sent w @ map UpdateCommand us\<rparr>)"
proof (induction ps arbitrary: us w)
  case Nil
  then show ?case by simp
next
  case (Cons p ps)
  then obtain u us' where us: "us = u # us'" "updateParams m tpc timestamp amount p = Inr u"
    "map (updateParams m tpc timestamp amount) ps = map Inr us'"
    by (cases us) auto
  let ?w1 = "w\<lparr>cells := apply_update (cells w) u, sent := sent w @ [UpdateCommand u]\<rparr>"
  from Cons.prems(2) us(1) have first: "fault w (length (sent w)) = None"
    by force
  have later: "\<forall>i<length us'. fault ?w1 (length (sent ?w1) + i) = None"
  proof (intro allI impI)
    fix i assume "i < length us'"
    with us(1) have "Suc i < length us" by simp
    with Cons.prems(2) have "fault w (length (sent w) + Suc i) = None" by blast
    then show "fault ?w1 (length (sent ?w1) + i) = None" by simp
  qed
  from Cons.IH [OF us(3) later] us(1,2) first show ?case
    by (simp add: send_update_def)
qed

lemma addStatistic_loop_fail:
  "map (updateParams m tpc timestamp amount) ps = map Inr us \<Longrightarrow>
   j < length us \<Longrightarrow>
   \<forall>i<j. fault w (length (sent w) + i) = None \<Longrightarrow>
   fault w (length (sent w) + j) = Some e \<Longrightarrow>
   addStatistic_loop m tpc timestamp amount ps w =
     (Rejected e,
      w\<lparr>cells := foldl apply_update (cells w) (take j us),
        sent := sent w @ map UpdateCommand (take (Suc j) us)\<rparr>)"
proof (induction ps arbitrary: us w j)
  case Nil
  then show ?case by simp
next
  case (Cons p ps)
  then obtain u us' where us: "us = u # us'" "updateParams m tpc timestamp amount p = Inr u"
    "map (updateParams m tpc timestamp amount) ps = map Inr us'"
    by (cases us) auto
  show ?case
  proof (cases j)
    case 0
    with Cons.prems(4) us(1,2) show ?thesis
      by (simp add: send_update_def)
  next
    case (Suc k)
    let ?w1 = "w\<lparr>cells := apply_update (cells w) u, sent := sent w @ [UpdateCommand u]\<rparr>"
    from Cons.prems(3) Suc have first: "fault w (length (sent w)) = None"
      by force
    from Cons.prems(2) Suc us(1) have k: "k < length us'"
      by simp
    have before: "\<forall>i<k. fault ?w1 (length (sent ?w1) + i) = None"
    proof (intro allI impI)
      fix i assume "i < k"
      with Suc have "Suc i < j" by simp
      with Cons.prems(3) have "fault w (length (sent w) + Suc i) = None" by blast
      then show "fault ?w1 (length (sent ?w1) + i) = None" by simp
    qed
    from Cons.prems(4) Suc have at: "fault ?w1 (length (sent ?w1) + k) = Some e"
      by simp
    from Cons.IH [OF us(3) k before at] us(1,2) first Suc show ?thesis
      by (simp add: send_update_def)
  qed
qed

text \<open>
  Claim C5. On a ready manager whose partitions all give a valid bucket date,
  \<^verbatim>\<open>addStatistic\<close> builds one update per configured partition, in the order of the
  configuration. When no update fails, exactly these updates are sent, in that order,
  each applied to the table before the next is sent, and the call fulfils. When the
  update number \<open>j\<close> is the first to fail, with error \<open>e\<close>, the updates up to and
  including that one have been sent and no later one is sent, the call is rejected with
  \<open>e\<close>, and the updates before number \<open>j\<close> stay applied to the table.
\<close>

theorem addStatistic_sequential:
  assumes "state m = INITIALIZED"
    and "map (updateParams m tpc timestamp amount) (timePartitions m) = map Inr us"
  shows "map Key_topic_period us = map (\<lambda>p. createTopicPeriod tpc (name p)) (timePartitions m)
    \<and> ((\<forall>i<length us. fault w (length (sent w) + i) = None) \<longrightarrow>
         addStatistic m w tpc timestamp amount =
           (Fulfilled (),
            w\<lparr>cells := foldl apply_update (cells w) us,
              sent := sent w @ map UpdateCommand us\<rparr>))
    \<and> (\<forall>j e. j < length us \<and> (\<forall>i<j. fault w (length (sent w) + i) = None)
              \<and> fault w (length (sent w) + j) = Some e \<longrightarrow>
         addStatistic m w tpc timestamp amount =
           (Rejected e,
            w\<lparr>cells := foldl apply_update (cells w) (take j us),
              sent := sent w @ map UpdateCommand (take (Suc j) us)\<rparr>))"
proof (intro conjI allI impI)
  show "map Key_topic_period us = map (\<lambda>p. createTopicPeriod tpc (name p)) (timePartitions m)"
    by (rule updates_keys [OF assms(2)])
next
  assume "\<forall>i<length us. fault w (length (sent w) + i) = None"
  with assms show "addStatistic m w tpc timestamp amount =
           (Fulfilled (),
            w\<lparr>cells := foldl apply_update (cells w) us,
              sent := sent w @ map UpdateCommand us\<rparr>)"
    by (simp add: addStatistic_def await_onReady_ready addStatistic_loop_ok)
next
  fix j e
  assume "j < length us \<and> (\<forall>i<j. fault w (length (sent w) + i) = None)
              \<and> fault w (length (sent w) + j) = Some e"
  with assms show "addStatistic m w tpc timestamp amount =
           (Rejected e,
            w\<lparr>cells := foldl apply_update (cells w) (take j us),
              sent := sent w @ map UpdateCommand (take (Suc j) us)\<rparr>)"
    by (simp add: addStatistic_def await_onReady_ready addStatistic_loop_fail)
qed

theorem addStatistic_sequential_witness:
  "state ready_default = INITIALIZED
   \<and> map (updateParams ready_default ''t'' 1700000000 None) (timePartitions ready_default)
       = map Inr example_updates
   \<and> addStatistic ready_default empty_dynamo ''t'' 1700000000 None =
       (Fulfilled (),
        empty_dynamo\<lparr>cells := foldl apply_update (\<lambda>k. None) example_updates,
                     sent := map UpdateCommand example_updates\<rparr>)
   \<and> addStatistic ready_default throttled_dynamo ''t'' 1700000000 None =
       (Rejected (ClientError ''ThrottlingException''),
        throttled_dynamo\<lparr>cells := foldl apply_update (\<lambda>k. None) (take 2 example_updates),
                         sent := map UpdateCommand (take 3 example_updates)\<rparr>)"
proof -
  have a: "state ready_default = INITIALIZED"
    by (simp add: ready_default_eq)
  have b: "map (updateParams ready_default ''t'' 1700000000 None) (timePartitions ready_default)
       = map Inr example_updates"
    using example_updates_eval by (simp add: ready_default_eq)
  have n: "length example_updates = 5"
    by (simp add: example_updates_def)
  have ok: "\<forall>i<length example_updates.
      fault empty_dynamo (length (sent empty_dynamo) + i) = None"
    by (simp add: empty_dynamo_def)
  have bad: "2 < length example_updates
      \<and> (\<forall>i<2. fault throttled_dynamo (length (sent throttled_dynamo) + i) = None)
      \<and> fault throttled_dynamo (length (sent throttled_dynamo) + 2)
          = Some (ClientError ''ThrottlingException'')"
    by (simp add: n throttled_dynamo_def)
  from addStatistic_sequential [OF a b, of empty_dynamo] ok
  have r1: "addStatistic ready_default empty_dynamo ''t'' 1700000000 None =
       (Fulfilled (),
        empty_dynamo\<lparr>cells := foldl apply_update (\<lambda>k. None) example_updates,
                     sent := map UpdateCommand example_updates\<rparr>)"
    by (simp add: empty_dynamo_def)
  from addStatistic_sequential [OF a b, of throttled_dynamo, THEN conjunct2, THEN conjunct2,
      rule_format, of 2 "ClientError ''ThrottlingException''"] bad
  have r2: "addStatistic ready_default throttled_dynamo ''t'' 1700000000 None =
       (Rejected (ClientError ''ThrottlingException''),
        throttled_dynamo\<lparr>cells := foldl apply_update (\<lambda>k. None) (take 2 example_updates),
                         sent := map UpdateCommand (take 3 example_updates)\<rparr>)"
    by (simp add: throttled_dynamo_def)
  from a b r1 r2 show ?thesis
    by (intro conjI)
qed

subsection \<open>Reads leave the table alone\<close>

lemma getStatisticsPeriod_frame:
  "cells (snd (getStatisticsPeriod m w tpc per startTime endTime)) = cells w
   \<and> fault (snd (getStatisticsPeriod m w tpc per startTime endTime)) = fault w
   \<and> (\<exists>qs. sent (snd (getStatisticsPeriod m w tpc per startTime endTime))
              = sent w @ map QueryCommand qs)"
proof -
  have none: "\<exists>qs. sent w = sent w @ map QueryCommand qs"
    by (rule exI [where x = "[]"]) simp
  have one: "\<exists>qs. sent w @ [QueryCommand q] = sent w @ map QueryCommand qs" for q
    by (rule exI [where x = "[q]"]) simp
  show ?thesis
    using none one
    by (simp add: getStatisticsPeriod_def send_query_def
        split: outcome.split option.split)
qed

lemma getStatistics_map_frame:
  "cells (snd (getStatistics_map m tpc startTime endTime ps w)) = cells w
   \<and> fault (snd (getStatistics_map m tpc startTime endTime ps w)) = fault w
   \<and> (\<exists>qs. sent (snd (getStatistics_map m tpc startTime endTime ps w))
              = sent w @ map QueryCommand qs)"
proof (induction ps arbitrary: w)
  case Nil
  show ?case by simp
next
  case (Cons p ps)
  let ?w1 = "snd (getStatisticsPeriod m w tpc (name p) startTime endTime)"
  from getStatisticsPeriod_frame [of m w tpc "name p" startTime endTime]
  obtain qs1 where w1: "cells ?w1 = cells w" "fault ?w1 = fault w"
    "sent ?w1 = sent w @ map QueryCommand qs1"
    by blast
  from Cons.IH [of ?w1]
  obtain qs2 where w2:
    "cells (snd (getStatistics_map m tpc startTime endTime ps ?w1)) = cells ?w1"
    "fault (snd (getStatistics_map m tpc startTime endTime ps ?w1)) = fault ?w1"
    "sent (snd (getStatistics_map m tpc startTime endTime ps ?w1))
       = sent ?w1 @ map QueryCommand qs2"
    by blast
  have step: "snd (getStatistics_map m tpc startTime endTime (p # ps) w)
      = snd (getStatistics_map m tpc startTime endTime ps ?w1)"
    by (simp split: prod.split)
  have "sent (snd (getStatistics_map m tpc startTime endTime (p # ps) w))
      = sent w @ map QueryCommand (qs1 @ qs2)"
    by (simp only: step w2 w1 map_append append_assoc)
  with step w1 w2 show ?case
    by (intro conjI exI [where x = "qs1 @ qs2"]) simp_all
qed

lemma getStatistics_frame:
  "cells (snd (getStatistics m w tpc startTime endTime)) = cells w
   \<and> fault (snd (getStatistics m w tpc startTime endTime)) = fault w
   \<and> (\<exists>qs. sent (snd (getStatistics m w tpc startTime endTime)) = sent w @ map QueryCommand qs)"
proof (cases "await_onReady m")
  case (Fulfilled u)
  then have "snd (getStatistics m w tpc startTime endTime)
      = snd (getStatistics_map m tpc startTime endTime (timePartitions m) w)"
    by (simp add: getStatistics_def split: prod.split outcome.split)
  then show ?thesis
    by (simp only: getStatistics_map_frame)
next
  case (Rejected e)
  then show ?thesis
    by (simp add: getStatistics_def)
next
  case Pending
  then show ?thesis
    by (simp add: getStatistics_def)
qed

lemma read_call_on_frame:
  "cells (read_call_on m w c) = cells w
   \<and> (\<exists>qs. sent (read_call_on m w c) = sent w @ map QueryCommand qs)"
proof (cases c)
  case (GetStatisticsPeriod tpc per startTime endTime)
  with getStatisticsPeriod_frame [of m w tpc per startTime endTime] show ?thesis
    by simp
next
  case (GetStatistics tpc startTime endTime)
  with getStatistics_frame [of m w tpc startTime endTime] show ?thesis
    by simp
qed

text \<open>
  Claim C10. After any sequence of calls of \<^verbatim>\<open>getStatisticsPeriod\<close> and
  \<^verbatim>\<open>getStatistics\<close>, from any state of the table and of the manager, the table holds
  the same cells with the same count and time as before, and the commands sent during
  the calls are all queries.
\<close>

theorem reads_leave_cells:
  "cells (run_reads m calls w) = cells w
   \<and> (\<exists>qs. sent (run_reads m calls w) = sent w @ map QueryCommand qs)"
proof (induction calls arbitrary: w)
  case Nil
  show ?case
    by (simp add: run_reads_def)
next
  case (Cons c calls)
  from read_call_on_frame [of m w c]
  obtain qs1 where w1: "cells (read_call_on m w c) = cells w"
    "sent (read_call_on m w c) = sent w @ map QueryCommand qs1"
    by blast
  from Cons.IH [of "read_call_on m w c"]
  obtain qs2 where w2:
    "cells (run_reads m calls (read_call_on m w c)) = cells (read_call_on m w c)"
    "sent (run_reads m calls (read_call_on m w c))
       = sent (read_call_on m w c) @ map QueryCommand qs2"
    by blast
  have step: "run_reads m (c # calls) w = run_reads m calls (read_call_on m w c)"
    by (simp add: run_reads_def)
  have "sent (run_reads m (c # calls) w) = sent w @ map QueryCommand (qs1 @ qs2)"
    by (simp only: step w2 w1 map_append append_assoc)
  moreover have "cells (run_reads m (c # calls) w) = cells w"
    by (simp only: step w2 w1)
  ultimately show ?case
    by (intro conjI exI [where x = "qs1 @ qs2"])
qed

subsection \<open>getStatistics as the concatenation of the period queries\<close>

lemma getTimePartition_configured:
  assumes "p \<in> set (timePartitions m)"
  shows "\<exists>q. getTimePartition m (name p) = Some q \<and> q \<in> set (timePartitions m)"
proof (cases "getTimePartition m (name p)")
  case None
  with assms show ?thesis
    by (auto simp: getTimePartition_def find_None_iff)
next
  case (Some q)
  then have "q \<in> set (timePartitions m)"
    by (auto simp: getTimePartition_def find_Some_iff)
  with Some show ?thesis by simp
qed

lemma getStatisticsPeriod_configured:
  assumes "state m = INITIALIZED" and "\<forall>q\<in>set (timePartitions m). interval q \<noteq> 0"
    and "p \<in> set (timePartitions m)" and "fault w (length (sent w)) = None"
  shows "\<exists>q. getStatisticsPeriod m w tpc (name p) startTime endTime =
           (Fulfilled (map statistic_of
              (query_items (cells w) (createTopicPeriod tpc (name p))
                 ((startTime div interval q) * interval q)
                 ((endTime div interval q) * interval q))),
            w\<lparr>sent := sent w @
               [QueryCommand
                  \<lparr>qry_TableName = table m,
                   val_topic_period = createTopicPeriod tpc (name p),
                   val_startTime = (startTime div interval q) * interval q,
                   val_endTime = (endTime div interval q) * interval q\<rparr>]\<rparr>)
         \<and> getTimePartition m (name p) = Some q"
proof -
  from getTimePartition_configured [OF assms(3)]
  obtain q where q: "getTimePartition m (name p) = Some q" "q \<in> set (timePartitions m)"
    by blast
  with assms(2) have "interval q \<noteq> 0" by blast
  from getStatisticsPeriod_ok [OF assms(1) q(1) this assms(4)] q(1) show ?thesis
    by blast
qed

lemma getStatisticsPeriod_same_cells:
  assumes "state m = INITIALIZED" and "\<forall>q\<in>set (timePartitions m). interval q \<noteq> 0"
    and "p \<in> set (timePartitions m)"
    and "fault w (length (sent w)) = None" and "fault v (length (sent v)) = None"
    and "cells v = cells w"
  shows "fst (getStatisticsPeriod m v tpc (name p) startTime endTime)
         = fst (getStatisticsPeriod m w tpc (name p) startTime endTime)"
proof -
  from getStatisticsPeriod_configured [OF assms(1,2,3,4), of tpc startTime endTime]
  obtain q where q: "getTimePartition m (name p) = Some q"
    "fst (getStatisticsPeriod m w tpc (name p) startTime endTime) =
       Fulfilled (map statistic_of
              (query_items (cells w) (createTopicPeriod tpc (name p))
                 ((startTime div interval q) * interval q)
                 ((endTime div interval q) * interval q)))"
    by force
  from getStatisticsPeriod_configured [OF assms(1,2,3,5), of tpc startTime endTime] q(1)
  have "fst (getStatisticsPeriod m v tpc (name p) startTime endTime) =
       Fulfilled (map statistic_of
              (query_items (cells v) (createTopicPeriod tpc (name p))
                 ((startTime div interval q) * interval q)
                 ((endTime div interval q) * interval q)))"
    by force
  with q(2) assms(6) show ?thesis by simp
qed

lemma getStatistics_map_ok:
  assumes "state m = INITIALIZED" and "\<forall>q\<in>set (timePartitions m). interval q \<noteq> 0"
    and "fault w (length (sent w)) = None"
  shows "set ps \<subseteq> set (timePartitions m) \<Longrightarrow>
         \<forall>i<length ps. fault v (length (sent v) + i) = None \<Longrightarrow>
         cells v = cells w \<Longrightarrow>
         fst (getStatistics_map m tpc startTime endTime ps v)
           = map (\<lambda>p. fst (getStatisticsPeriod m w tpc (name p) startTime endTime)) ps"
proof (induction ps arbitrary: v)
  case Nil
  show ?case by simp
next
  case (Cons p ps)
  let ?v1 = "snd (getStatisticsPeriod m v tpc (name p) startTime endTime)"
  from Cons.prems(1) have p: "p \<in> set (timePartitions m)" and ps: "set ps \<subseteq> set (timePartitions m)"
    by simp_all
  from Cons.prems(2) have first: "fault v (length (sent v)) = None"
    by force
  from getStatisticsPeriod_configured [OF assms(1,2) p first, of tpc startTime endTime]
  have v1: "cells ?v1 = cells v" "fault ?v1 = fault v" "length (sent ?v1) = Suc (length (sent v))"
    by auto
  have later: "\<forall>i<length ps. fault ?v1 (length (sent ?v1) + i) = None"
  proof (intro allI impI)
    fix i assume "i < length ps"
    then have "Suc i < length (p # ps)" by simp
    with Cons.prems(2) have "fault v (length (sent v) + Suc i) = None" by blast
    with v1 show "fault ?v1 (length (sent ?v1) + i) = None" by simp
  qed
  from v1(1) Cons.prems(3) have same: "cells ?v1 = cells w" by simp
  have head: "fst (getStatisticsPeriod m v tpc (name p) startTime endTime)
      = fst (getStatisticsPeriod m w tpc (name p) startTime endTime)"
    by (rule getStatisticsPeriod_same_cells [OF assms(1,2) p assms(3) first Cons.prems(3)])
  have step: "fst (getStatistics_map m tpc startTime endTime (p # ps) v)
      = fst (getStatisticsPeriod m v tpc (name p) startTime endTime)
        # fst (getStatistics_map m tpc startTime endTime ps ?v1)"
    by (simp split: prod.split)
  from Cons.IH [OF ps later same] head step show ?case
    by simp
qed

lemma Promise_all_Fulfilled: "Promise_all (map Fulfilled rs) = Fulfilled rs"
  by (induction rs) simp_all

text \<open>
  Claim C7. On a ready manager whose intervals are not zero, and while the client fails
  none of the queries, every \<^verbatim>\<open>getStatisticsPeriod(topic, p.name, startTime, endTime)\<close>
  over the configured partitions \<open>p\<close> fulfils on the given table, and
  \<^verbatim>\<open>getStatistics(topic, startTime, endTime)\<close> fulfils with the concatenation of their
  results in the order of the configuration, nothing removed and nothing added.
\<close>

theorem getStatistics_concat:
  assumes "state m = INITIALIZED" and "\<forall>q\<in>set (timePartitions m). interval q \<noteq> 0"
    and "\<forall>i<length (timePartitions m). fault w (length (sent w) + i) = None"
  shows "\<exists>rs. map (\<lambda>p. fst (getStatisticsPeriod m w tpc (name p) startTime endTime))
                (timePartitions m) = map Fulfilled rs
              \<and> fst (getStatistics m w tpc startTime endTime) = Fulfilled (concat rs)"
proof (cases "timePartitions m = []")
  case True
  with assms(1) have "fst (getStatistics m w tpc startTime endTime) = Fulfilled (concat [])"
    by (simp add: getStatistics_def await_onReady_ready)
  with True show ?thesis
    by (intro exI [where x = "[]"]) simp
next
  case False
  with assms(3) have first: "fault w (length (sent w)) = None"
    by force
  let ?one = "\<lambda>p. fst (getStatisticsPeriod m w tpc (name p) startTime endTime)"
  have each: "\<forall>p\<in>set (timePartitions m). \<exists>r. ?one p = Fulfilled r"
  proof
    fix p assume "p \<in> set (timePartitions m)"
    from getStatisticsPeriod_configured [OF assms(1,2) this first, of tpc startTime endTime]
    show "\<exists>r. ?one p = Fulfilled r" by force
  qed
  define rs where "rs = map (\<lambda>p. case ?one p of Fulfilled r \<Rightarrow> r | _ \<Rightarrow> []) (timePartitions m)"
  from each have all: "map ?one (timePartitions m) = map Fulfilled rs"
    unfolding rs_def by (induction "timePartitions m") auto
  have "fst (getStatistics_map m tpc startTime endTime (timePartitions m) w)
      = map ?one (timePartitions m)"
    by (rule getStatistics_map_ok [OF assms(1,2) first _ assms(3)]) simp_all
  with all have "Promise_all (fst (getStatistics_map m tpc startTime endTime (timePartitions m) w))
      = Fulfilled rs"
    by (simp add: Promise_all_Fulfilled)
  moreover obtain os v where "getStatistics_map m tpc startTime endTime (timePartitions m) w = (os, v)"
    by (cases "getStatistics_map m tpc startTime endTime (timePartitions m) w")
  ultimately have "fst (getStatistics m w tpc startTime endTime) = Fulfilled (concat rs)"
    using assms(1) by (simp add: getStatistics_def await_onReady_ready)
  with all show ?thesis by blast
qed

theorem getStatistics_concat_witness:
  "state test_manager = INITIALIZED
   \<and> map interval (timePartitions test_manager) = [60, 3600]
   \<and> map (\<lambda>p. fst (getStatisticsPeriod test_manager two_cell_dynamo ''t'' (name p) 30 59))
         (timePartitions test_manager)
       = map Fulfilled
           [[\<lparr>topic = ''t'', period = Some ''minute'', count = 2, time_partition = 0\<rparr>],
            [\<lparr>topic = ''t'', period = Some ''hour'', count = 5, time_partition = 0\<rparr>]]
   \<and> fst (getStatistics test_manager two_cell_dynamo ''t'' 30 59)
       = Fulfilled
           [\<lparr>topic = ''t'', period = Some ''minute'', count = 2, time_partition = 0\<rparr>,
            \<lparr>topic = ''t'', period = Some ''hour'', count = 5, time_partition = 0\<rparr>]"
proof -
  have a: "state test_manager = INITIALIZED"
    by (simp add: test_manager_eq)
  have b: "\<forall>q\<in>set (timePartitions test_manager). interval q \<noteq> 0"
    by (simp add: test_manager_eq testTimePartitions_def)
  have c: "\<forall>i<length (timePartitions test_manager).
      fault two_cell_dynamo (length (sent two_cell_dynamo) + i) = None"
    by (simp add: two_cell_dynamo_def)
  have d: "map (\<lambda>p. fst (getStatisticsPeriod test_manager two_cell_dynamo ''t'' (name p) 30 59))
         (timePartitions test_manager)
       = map Fulfilled
           [[\<lparr>topic = ''t'', period = Some ''minute'', count = 2, time_partition = 0\<rparr>],
            [\<lparr>topic = ''t'', period = Some ''hour'', count = 5, time_partition = 0\<rparr>]]"
    by (simp add: test_manager_eq testTimePartitions_def two_cell_dynamo_def
        getStatisticsPeriod_def await_onReady_state getTimePartition_def send_query_def
        query_items_def statistic_of_def createTopicPeriod_def)
  from getStatistics_concat [OF a b c, of "''t''" 30 59]
  obtain rs where rs:
    "map (\<lambda>p. fst (getStatisticsPeriod test_manager two_cell_dynamo ''t'' (name p) 30 59))
         (timePartitions test_manager) = map Fulfilled rs"
    "fst (getStatistics test_manager two_cell_dynamo ''t'' 30 59) = Fulfilled (concat rs)"
    by blast
  from rs(1) d have "map Fulfilled rs = map Fulfilled
           [[\<lparr>topic = ''t'', period = Some ''minute'', count = 2, time_partition = 0\<rparr>],
            [\<lparr>topic = ''t'', period = Some ''hour'', count = 5, time_partition = 0\<rparr>]]"
    by simp
  then have "rs = [[\<lparr>topic = ''t'', period = Some ''minute'', count = 2, time_partition = 0\<rparr>],
            [\<lparr>topic = ''t'', period = Some ''hour'', count = 5, time_partition = 0\<rparr>]]"
    by (auto simp: map_eq_Cons_conv)
  with rs(2) have e: "fst (getStatistics test_manager two_cell_dynamo ''t'' 30 59)
       = Fulfilled
           [\<lparr>topic = ''t'', period = Some ''minute'', count = 2, time_partition = 0\<rparr>,
            \<lparr>topic = ''t'', period = Some ''hour'', count = 5, time_partition = 0\<rparr>]"
    by simp
  have f: "map interval (timePartitions test_manager) = [60, 3600]"
    by (simp add: test_manager_eq testTimePartitions_def)
  from a f d e show ?thesis
    by (intro conjI)
qed

subsection \<open>The buckets of the timestamp 1700000000\<close>

text \<open>The number 1700000000 read as epoch milliseconds is 1970-01-20T16:13:20Z; read as
  epoch seconds it would be 2023-11-14T22:13:20Z.\<close>

lemma bucket_minute:
  "Date_parse (moment_utc_format 1700000000 ''YYYY-MM-DDTHH:mm:00.000Z'') = Some 1699980000"
  by (simp add: calendar_eval format_eval parse_eval)

lemma bucket_hour:
  "Date_parse (moment_utc_format 1700000000 ''YYYY-MM-DDTHH:00:00.000Z'') = Some 1699200000"
  by (simp add: calendar_eval format_eval parse_eval)

lemma iso_minute: "toISOString 1699980000 = ''1970-01-20T16:13:00.000Z''"
  by (simp add: calendar_eval format_eval)

lemma iso_hour: "toISOString 1699200000 = ''1970-01-20T16:00:00.000Z''"
  by (simp add: calendar_eval format_eval)

lemma test_updates_eval:
  "map (updateParams test_manager tpc 1700000000 amount) testTimePartitions
     = map Inr (test_updates tpc amount)"
  by (simp add: test_manager_eq testTimePartitions_def test_updates_def updateParams_def
      getTimePartitionValue_def createTopicPeriod_def
      bucket_minute bucket_hour iso_minute iso_hour)

lemma addStatistic_test:
  "addStatistic test_manager empty_dynamo tpc 1700000000 amount =
     (Fulfilled (),
      \<lparr>cells = foldl apply_update (\<lambda>k. None) (test_updates tpc amount),
       sent = map UpdateCommand (test_updates tpc amount),
       fault = (\<lambda>n. None)\<rparr>)"
proof -
  have ready: "state test_manager = INITIALIZED"
    and tps: "timePartitions test_manager = testTimePartitions"
    by (simp_all add: test_manager_eq)
  have quiet: "\<forall>i<length (test_updates tpc amount).
      fault empty_dynamo (length (sent empty_dynamo) + i) = None"
    by (simp add: empty_dynamo_def)
  from addStatistic_loop_ok [OF test_updates_eval quiet] ready tps show ?thesis
    by (simp add: addStatistic_def await_onReady_ready empty_dynamo_def)
qed

lemma addStatistic_example:
  "addStatistic ready_default empty_dynamo ''t'' 1700000000 None =
     (Fulfilled (),
      \<lparr>cells = foldl apply_update (\<lambda>k. None) example_updates,
       sent = map UpdateCommand example_updates,
       fault = (\<lambda>n. None)\<rparr>)"
proof -
  have ready: "state ready_default = INITIALIZED"
    and tps: "timePartitions ready_default = defaultTimePartitions"
    by (simp_all add: ready_default_eq)
  have quiet: "\<forall>i<length example_updates.
      fault empty_dynamo (length (sent empty_dynamo) + i) = None"
    by (simp add: empty_dynamo_def)
  from addStatistic_loop_ok [OF example_updates_eval quiet] ready tps show ?thesis
    by (simp add: addStatistic_def await_onReady_ready empty_dynamo_def)
qed

lemmas query_eval =
  getStatisticsPeriod_def await_onReady_state getTimePartition_def send_query_def
  query_items_def statistic_of_def createTopicPeriod_def apply_update_def

subsection \<open>Where the code differs from the claims\<close>

text \<open>
  Claim C1 (the code differs). On an empty table, \<^verbatim>\<open>addStatistic("t", 1700000000)\<close>
  followed by \<^verbatim>\<open>getStatisticsPeriod("t", "minute", a, a)\<close> returns no Statistic when
  \<open>a\<close> is the start of the minute of the timestamp in epoch seconds,
  \<open>(1700000000 div 60) * 60 = 1699999980\<close>: the minute cell was written under the
  range key 1699980000, the start of the minute of the timestamp read as epoch
  milliseconds. Only a query at that key returns the one Statistic with count 1.
\<close>

theorem addStatistic_then_query_minute:
  "fst (getStatisticsPeriod ready_default
          (snd (addStatistic ready_default empty_dynamo ''t'' 1700000000 None))
          ''t'' ''minute'' ((1700000000 div 60) * 60) ((1700000000 div 60) * 60))
     = Fulfilled []
   \<and> fst (getStatisticsPeriod ready_default
          (snd (addStatistic ready_default empty_dynamo ''t'' 1700000000 None))
          ''t'' ''minute'' ((1700000000 div 60000) * 60000) ((1700000000 div 60000) * 60000))
     = Fulfilled [\<lparr>topic = ''t'', period = Some ''minute'', count = 1,
                   time_partition = 1699980000\<rparr>]"
  unfolding addStatistic_example snd_conv
  by (simp add: example_updates_def ready_default_eq defaultTimePartitions_def query_eval)

text \<open>
  Claim C3 (the code differs). For the timestamp 1700000000 the range keys written for
  the minute, hour, day, month and year partitions are 1699980000, 1699200000,
  1641600000, 0 and 0: the bucket starts of 1970-01-20T16:13:20Z in epoch milliseconds.
  The start of the minute of the timestamp in epoch seconds is 1699999980.
\<close>

theorem addStatistic_range_keys:
  "sent (snd (addStatistic ready_default empty_dynamo ''t'' 1700000000 None))
     = map UpdateCommand example_updates
   \<and> map Key_time_partition example_updates = [1699980000, 1699200000, 1641600000, 0, 0]
   \<and> (1700000000 div 60) * 60 = (1699999980 :: int)"
  by (simp add: addStatistic_example example_updates_def)

text \<open>
  Claim C8 (the code differs). With the amount 0 the increment of every update is 1, and
  the new cells count 1: \<^verbatim>\<open>amount ? amount : 1\<close> takes the amount 0 for a missing one.
\<close>

theorem addStatistic_amount_zero:
  "map val_incr (test_updates ''t'' (Some 0)) = [1, 1]
   \<and> sent (snd (addStatistic test_manager empty_dynamo ''t'' 1700000000 (Some 0)))
       = map UpdateCommand (test_updates ''t'' (Some 0))
   \<and> map_option cell_count
         (cells (snd (addStatistic test_manager empty_dynamo ''t'' 1700000000 (Some 0)))
            (''t#minute'', 1699980000)) = Some 1"
  by (simp add: addStatistic_test test_updates_def incr_of_def apply_update_def)

text \<open>For an amount that is given and not zero, and for a missing amount, the increment
  is as the claim says.\<close>

lemma incr_of_given: "amount \<noteq> 0 \<Longrightarrow> incr_of (Some amount) = amount"
  by (simp add: incr_of_def)

lemma incr_of_omitted: "incr_of None = 1"
  by (simp add: incr_of_def)

text \<open>
  Claim C9 (the code differs). A cell written for the topic \<^verbatim>\<open>a#b\<close> and the partition
  \<^verbatim>\<open>minute\<close> has the hash key \<^verbatim>\<open>a#b#minute\<close>; the Statistic that
  \<^verbatim>\<open>getStatisticsPeriod("a#b", "minute", ...)\<close> returns for it has the topic \<^verbatim>\<open>a\<close> and
  the period \<^verbatim>\<open>b\<close>.
\<close>

theorem getStatisticsPeriod_topic_with_separator:
  "createTopicPeriod ''a#b'' ''minute'' = ''a#b#minute''
   \<and> fst (getStatisticsPeriod test_manager
          (snd (addStatistic test_manager empty_dynamo ''a#b'' 1700000000 None))
          ''a#b'' ''minute'' 1699980000 1699980000)
     = Fulfilled [\<lparr>topic = ''a'', period = Some ''b'', count = 1,
                   time_partition = 1699980000\<rparr>]"
  unfolding addStatistic_test snd_conv
  by (simp add: test_updates_def incr_of_def test_manager_eq testTimePartitions_def query_eval)

text \<open>When neither the topic nor the period contains the separator, splitting the hash
  key gives them back.\<close>

lemma split_on_no_separator: "c \<notin> set s \<Longrightarrow> split_on c s = (s, [])"
  by (induction s) auto

lemma split_on_append:
  "c \<notin> set s \<Longrightarrow> split_on c (s @ c # t) = (s, fst (split_on c t) # snd (split_on c t))"
  by (induction s) (auto split: prod.split)

lemma statistic_of_roundtrip:
  assumes "CHR ''#'' \<notin> set tpc" and "CHR ''#'' \<notin> set per"
  shows "statistic_of \<lparr>topic_period = createTopicPeriod tpc per, item_time_partition = tp,
                        item_count = n, item_time = tm\<rparr>
         = \<lparr>topic = tpc, period = Some per, count = n, time_partition = tp\<rparr>"
  using assms
  by (simp add: statistic_of_def createTopicPeriod_def split_on_append split_on_no_separator)

text \<open>
  Claim C4 (the code differs). A caller of \<^verbatim>\<open>onReady\<close> that was waiting when the
  provisioning failed with an error is rejected with that error; a caller that comes
  after the failure is rejected with \<^verbatim>\<open>undefined\<close>, since the state \<^verbatim>\<open>FAIL\<close> keeps no
  error and \<^verbatim>\<open>reject()\<close> is called without one.
\<close>

theorem onReady_after_failure:
  "(case onReady (constructor \<lparr>opt_table = None, opt_timePartitions = None\<rparr>) of
      (p, m) \<Rightarrow> promises (provisioned (Some (ClientError ''AccessDeniedException'')) m) ! p)
     = Rejected (ClientError ''AccessDeniedException'')
   \<and> (case onReady (provisioned (Some (ClientError ''AccessDeniedException''))
                      (constructor \<lparr>opt_table = None, opt_timePartitions = None\<rparr>)) of
        (p, m) \<Rightarrow> promises m ! p)
     = Rejected Undefined"
  by (simp add: onReady_def constructor_def provisioned_def rejectReadyPromises_def callback_def)

text \<open>The same for every manager and every error: after a failed provisioning,
  \<^verbatim>\<open>onReady\<close> rejects with \<^verbatim>\<open>undefined\<close>.\<close>

lemma await_onReady_after_failure:
  "await_onReady (provisioned (Some e) m) = Rejected Undefined"
  by (simp add: await_onReady_state provisioned_def rejectReadyPromises_def)

end
